theory Spec2Isabelle
  imports
    Complex_Main
    "HOL-Library.Char_ord"
    "HOL-Library.List_Lexorder"
    "HOL-Library.Multiset"
    "HOL-Library.Sublist"
begin

section \<open>The expense tracker of \<^verbatim>\<open>main.py\<close>\<close>

text \<open>
  The program keeps one SQLite table \<^verbatim>\<open>expenses\<close> and exposes three tools
  (\<^verbatim>\<open>add_expense\<close>, \<^verbatim>\<open>list_expenses\<close>, \<^verbatim>\<open>summarize\<close>) and one resource
  (\<^verbatim>\<open>categories\<close>). The embedding below models the table as a list of rows together
  with the \<^verbatim>\<open>sqlite_sequence\<close> counter that \<^verbatim>\<open>AUTOINCREMENT\<close> maintains, the SQL
  statements of the source as functions on that state, Python exceptions as the left
  summand of a sum type, and everything outside the program (the clock, a failing
  database layer, the category file) as a record of inputs of each call.

  Arguments are taken at the types of the data model. An amount is the real number
  that a double precision value denotes; the column is \<^verbatim>\<open>REAL\<close>, so \<^verbatim>\<open>SUM(amount)\<close> is
  a floating point summation, which rounds. The summation is a function of the SQLite
  library and not of this program, and it differs between versions of the library, so
  it is an input of the model (\<open>sql_sum\<close> below); two such functions are defined for
  the sample environments. Dates, categories, subcategories and notes are strings, that
  is lists of bytes, compared as SQLite's \<^verbatim>\<open>BINARY\<close> collation compares them:
  lexicographically, byte by byte.
\<close>

subsection \<open>Python values and exceptions\<close>

datatype exn =
    SqliteError string
  | FileNotFoundError string
  | OSError string
  | UnicodeDecodeError string

text \<open>\<^verbatim>\<open>str(e)\<close>: the text of an exception.\<close>

fun exn_str :: "exn \<Rightarrow> string" where
  "exn_str (SqliteError m) = m"
| "exn_str (FileNotFoundError m) = m"
| "exn_str (OSError m) = m"
| "exn_str (UnicodeDecodeError m) = m"

datatype pyval = PyInt int | PyFloat real | PyStr string

type_synonym pydict = "(string \<times> pyval) list"

text \<open>What a tool or resource hands back: a list of mappings, one mapping, or a string.\<close>

datatype result = RList "pydict list" | RDict pydict | RStr string

text \<open>
  A Python value used as a condition: \<^verbatim>\<open>None\<close> and the empty string are false, every
  other string is true.
\<close>

definition truthy :: "string option \<Rightarrow> bool" where
  "truthy v = (case v of None \<Rightarrow> False | Some s \<Rightarrow> s \<noteq> [])"

text \<open>\<^verbatim>\<open>str.lower\<close> on the ASCII letters; every other byte is kept.\<close>

definition lower_char :: "char \<Rightarrow> char" where
  "lower_char c =
     (case map_of (zip ''ABCDEFGHIJKLMNOPQRSTUVWXYZ'' ''abcdefghijklmnopqrstuvwxyz'') c of
        None \<Rightarrow> c
      | Some l \<Rightarrow> l)"

definition lower :: "string \<Rightarrow> string" where
  "lower s = map lower_char s"

text \<open>\<^verbatim>\<open>str.startswith\<close> and the substring test \<^verbatim>\<open>sub in s\<close>.\<close>

fun startswith :: "string \<Rightarrow> string \<Rightarrow> bool" where
  "startswith s [] = True"
| "startswith [] (p # ps) = False"
| "startswith (c # cs) (p # ps) = (c = p \<and> startswith cs ps)"

fun py_in :: "string \<Rightarrow> string \<Rightarrow> bool" where
  "py_in sub [] = (sub = [])"
| "py_in sub (c # cs) = (startswith (c # cs) sub \<or> py_in sub cs)"

subsection \<open>The calendar date of \<^verbatim>\<open>date_class.today()\<close>\<close>

record py_date =
  year :: nat
  month :: nat
  day :: nat

definition digit_char :: "nat \<Rightarrow> char" where
  "digit_char n = ''0123456789'' ! (n mod 10)"

fun decimal :: "nat \<Rightarrow> string" where
  "decimal n = (if n < 10 then [digit_char n] else decimal (n div 10) @ [digit_char n])"

declare decimal.simps [simp del]

text \<open>The conversion \<^verbatim>\<open>%0wd\<close>: decimal digits, padded with zeros to width \<open>w\<close>.\<close>

definition zero_pad :: "nat \<Rightarrow> nat \<Rightarrow> string" where
  "zero_pad w n = replicate (w - length (decimal n)) (CHR ''0'') @ decimal n"

text \<open>\<^verbatim>\<open>str(d)\<close> of a date is \<^verbatim>\<open>d.isoformat()\<close>, that is \<^verbatim>\<open>"%04d-%02d-%02d"\<close>.\<close>

definition isoformat :: "py_date \<Rightarrow> string" where
  "isoformat d = zero_pad 4 (year d) @ ''-'' @ zero_pad 2 (month d) @ ''-'' @ zero_pad 2 (day d)"

subsection \<open>The environment of a call\<close>

text \<open>
  \<open>today\<close> is the clock's calendar date. \<open>db_fault\<close> is the text of the exception that the
  database layer raises during this call (connecting, executing or committing), if it
  raises one; the transaction of a failed call is rolled back. \<open>categories_file\<close> is
  what opening and decoding \<^verbatim>\<open>categories.json\<close> yields: the exception raised, or the
  decoded text of the file before newline translation. \<open>sql_sum\<close> is the aggregate
  \<^verbatim>\<open>SUM\<close> of the SQLite library on the \<^verbatim>\<open>REAL\<close> values of one group, given in the order
  in which the rows of the group are scanned.
\<close>

record env =
  today :: py_date
  db_fault :: "string option"
  categories_file :: "exn + string"
  sql_sum :: "real list \<Rightarrow> real"

subsection \<open>The store\<close>

text \<open>
  One row of
  \<^verbatim>\<open>expenses(id INTEGER PRIMARY KEY AUTOINCREMENT, date TEXT NOT NULL, amount REAL NOT NULL,
  category TEXT NOT NULL, subcategory TEXT DEFAULT '', note TEXT DEFAULT '')\<close>.
\<close>

record expense =
  id_col :: int
  date_col :: string
  amount_col :: real
  category_col :: string
  subcategory_col :: string
  note_col :: string

text \<open>
  The table in insertion order, and the entry of \<^verbatim>\<open>sqlite_sequence\<close> for the table
  (0 when there is none). A store file in which the table does not exist yet is the
  empty table with sequence 0, which is what \<^verbatim>\<open>CREATE TABLE IF NOT EXISTS\<close> makes of it.
\<close>

record db =
  expenses :: "expense list"
  sqlite_sequence :: int

definition max_rowid :: int where
  "max_rowid = 9223372036854775807"

text \<open>The largest rowid that the table has held: the maximum of the sequence and the rows.\<close>

definition largest_rowid :: "db \<Rightarrow> int" where
  "largest_rowid d = fold max (map id_col (expenses d)) (sqlite_sequence d)"

text \<open>
  \<^verbatim>\<open>INSERT INTO expenses(date, amount, category, subcategory, note) VALUES (?,?,?,?,?)\<close>
  on an \<^verbatim>\<open>AUTOINCREMENT\<close> key: the new rowid is one more than the largest rowid the table
  has ever held, the sequence records it, and the statement fails with \<^verbatim>\<open>SQLITE_FULL\<close>
  once the largest possible rowid has been used. The result carries \<^verbatim>\<open>lastrowid\<close>.
\<close>

definition sql_insert :: "db \<Rightarrow> string \<Rightarrow> real \<Rightarrow> string \<Rightarrow> string \<Rightarrow> string \<Rightarrow> exn + (int \<times> db)" where
  "sql_insert d dt amt cat sub nt =
     (if max_rowid \<le> largest_rowid d then Inl (SqliteError ''database or disk is full'')
      else
        let rowid = largest_rowid d + 1;
            row = \<lparr>id_col = rowid, date_col = dt, amount_col = amt, category_col = cat,
                   subcategory_col = sub, note_col = nt\<rparr>
        in Inr (rowid, \<lparr>expenses = expenses d @ [row], sqlite_sequence = rowid\<rparr>))"

text \<open>\<^verbatim>\<open>DELETE FROM expenses WHERE category = ?\<close>.\<close>

definition sql_delete_category :: "string \<Rightarrow> db \<Rightarrow> db" where
  "sql_delete_category cat d = d\<lparr>expenses := filter (\<lambda>r. category_col r \<noteq> cat) (expenses d)\<rparr>"

text \<open>
  The conditions that the source appends to a \<^verbatim>\<open>WHERE\<close> clause, each with its bound
  parameters, and their meaning on a row. \<^verbatim>\<open>x BETWEEN a AND b\<close> is \<^verbatim>\<open>x >= a AND x <= b\<close>.
\<close>

datatype cond =
    DateBetween string string
  | DateGe string
  | DateLe string
  | CategoryEq string

fun holds :: "cond \<Rightarrow> expense \<Rightarrow> bool" where
  "holds (DateBetween a b) r = (a \<le> date_col r \<and> date_col r \<le> b)"
| "holds (DateGe a) r = (a \<le> date_col r)"
| "holds (DateLe b) r = (date_col r \<le> b)"
| "holds (CategoryEq c) r = (category_col r = c)"

text \<open>\<^verbatim>\<open>WHERE 1=1 AND c1 AND c2 ...\<close>\<close>

fun sql_where :: "cond list \<Rightarrow> expense \<Rightarrow> bool" where
  "sql_where [] r = True"
| "sql_where (c # cs) r = (holds c r \<and> sql_where cs r)"

text \<open>
  \<^verbatim>\<open>ORDER BY date DESC, id DESC\<close>: \<open>comes_before a b\<close> says that row \<open>a\<close> may stand before
  row \<open>b\<close>. The sorter is an insertion sort.
\<close>

definition comes_before :: "expense \<Rightarrow> expense \<Rightarrow> bool" where
  "comes_before a b =
     (date_col b < date_col a \<or> (date_col a = date_col b \<and> id_col b \<le> id_col a))"

fun insert_row :: "expense \<Rightarrow> expense list \<Rightarrow> expense list" where
  "insert_row r [] = [r]"
| "insert_row r (x # xs) = (if comes_before r x then r # x # xs else x # insert_row r xs)"

fun order_by_date_id_desc :: "expense list \<Rightarrow> expense list" where
  "order_by_date_id_desc [] = []"
| "order_by_date_id_desc (r # rs) = insert_row r (order_by_date_id_desc rs)"

text \<open>
  \<^verbatim>\<open>SELECT id, date, amount, category, subcategory, note FROM expenses WHERE ...
  ORDER BY date DESC, id DESC\<close>
\<close>

definition sql_select :: "cond list \<Rightarrow> db \<Rightarrow> expense list" where
  "sql_select cs d = order_by_date_id_desc (filter (sql_where cs) (expenses d))"

text \<open>
  \<^verbatim>\<open>SELECT category, SUM(amount) AS total_amount, COUNT(*) as count ... GROUP BY category
  ORDER BY total_amount DESC\<close>. SQLite groups by sorting the selected rows on the
  grouping column; each run of rows of equal category is one group, and a group yields
  one output row (category, \<^verbatim>\<open>SUM\<close> of its amounts, number of its rows); the output
  rows are then sorted on the total, descending. SQL leaves open the order in which
  the rows of a group are scanned and the order of equal totals; here a group is
  scanned in table order, and equal totals come out in descending category order.
\<close>

type_synonym summary = "string \<times> real \<times> int"

fun group_rows :: "expense list \<Rightarrow> (string \<times> expense list) list" where
  "group_rows [] = []"
| "group_rows (r # rs) =
     (case group_rows rs of
        [] \<Rightarrow> [(category_col r, [r])]
      | (c, g) # gs \<Rightarrow>
          if c = category_col r then (c, r # g) # gs
          else (category_col r, [r]) # (c, g) # gs)"

definition aggregate :: "(real list \<Rightarrow> real) \<Rightarrow> expense list \<Rightarrow> summary list" where
  "aggregate sum_fn rows =
     map (\<lambda>(c, g). (c, sum_fn (map amount_col g), int (length g))) (group_rows rows)"

definition total_amount :: "summary \<Rightarrow> real" where
  "total_amount g = fst (snd g)"

fun insert_summary :: "summary \<Rightarrow> summary list \<Rightarrow> summary list" where
  "insert_summary g [] = [g]"
| "insert_summary g (x # xs) =
     (if total_amount x < total_amount g then g # x # xs else x # insert_summary g xs)"

fun order_by_total_desc :: "summary list \<Rightarrow> summary list" where
  "order_by_total_desc [] = []"
| "order_by_total_desc (g # gs) = insert_summary g (order_by_total_desc gs)"

definition sql_summarize :: "(real list \<Rightarrow> real) \<Rightarrow> cond list \<Rightarrow> db \<Rightarrow> summary list" where
  "sql_summarize sum_fn cs d =
     order_by_total_desc
       (aggregate sum_fn (sort_key category_col (filter (sql_where cs) (expenses d))))"

text \<open>
  \<^verbatim>\<open>async with aiosqlite.connect(DB_PATH) as c: ...\<close>: the body runs unless the database
  layer raises.
\<close>

definition with_connection :: "env \<Rightarrow> (exn + 'a) \<Rightarrow> exn + 'a" where
  "with_connection e body = (case db_fault e of Some m \<Rightarrow> Inl (SqliteError m) | None \<Rightarrow> body)"

subsection \<open>The store initializer\<close>

text \<open>
  \<^verbatim>\<open>init_db\<close> creates the table if it is missing, inserts a probe row with category
  \<^verbatim>\<open>'test'\<close> and deletes \<^verbatim>\<open>WHERE category = 'test'\<close>. Its handler prints and raises again,
  so an exception leaves the function; the connection's context manager commits when
  the block ends normally and rolls back otherwise.
\<close>

definition init_db :: "env \<Rightarrow> db \<Rightarrow> exn + db" where
  "init_db e d =
     with_connection e
       (case sql_insert d ''2000-01-01'' 0 ''test'' [] [] of
          Inl x \<Rightarrow> Inl x
        | Inr (rowid, d') \<Rightarrow> Inr (sql_delete_category ''test'' d'))"

subsection \<open>The tools\<close>

definition error_result :: "string \<Rightarrow> result" where
  "error_result m = RDict [(''status'', PyStr ''error''), (''message'', PyStr m)]"

text \<open>
  \<^verbatim>\<open>add_expense(amount, category, subcategory="", note="", date=None)\<close>. The result is
  the returned value, or the exception that leaves the function, and the store after
  the call.
\<close>

definition add_expense ::
  "env \<Rightarrow> db \<Rightarrow> real \<Rightarrow> string \<Rightarrow> string \<Rightarrow> string \<Rightarrow> string option \<Rightarrow> (exn + result) \<times> db" where
  "add_expense e d amount category subcategory note date =
     (let date' = (case date of None \<Rightarrow> isoformat (today e) | Some s \<Rightarrow> s) in
      case with_connection e (sql_insert d date' amount category subcategory note) of
        Inr (expense_id, d') \<Rightarrow>
          (Inr (RDict [(''status'', PyStr ''success''), (''id'', PyInt expense_id),
                       (''message'', PyStr ''Expense added successfully'')]), d')
      | Inl x \<Rightarrow>
          if py_in ''readonly'' (lower (exn_str x))
          then (Inr (error_result ''Database is in read-only mode. Check file permissions.''), d)
          else (Inr (error_result (''Database error: '' @ exn_str x)), d))"

text \<open>\<^verbatim>\<open>dict(zip(cols, r))\<close> with the column names of \<^verbatim>\<open>cur.description\<close>.\<close>

definition expense_dict :: "expense \<Rightarrow> pydict" where
  "expense_dict r =
     zip [''id'', ''date'', ''amount'', ''category'', ''subcategory'', ''note'']
         [PyInt (id_col r), PyStr (date_col r), PyFloat (amount_col r), PyStr (category_col r),
          PyStr (subcategory_col r), PyStr (note_col r)]"

definition summary_dict :: "summary \<Rightarrow> pydict" where
  "summary_dict g =
     zip [''category'', ''total_amount'', ''count'']
         [PyStr (fst g), PyFloat (fst (snd g)), PyInt (snd (snd g))]"

text \<open>\<^verbatim>\<open>list_expenses(start_date=None, end_date=None)\<close>: one of four queries.\<close>

definition list_expenses ::
  "env \<Rightarrow> db \<Rightarrow> string option \<Rightarrow> string option \<Rightarrow> (exn + result) \<times> db" where
  "list_expenses e d start_date end_date =
     (case with_connection e
             (Inr (if truthy start_date \<and> truthy end_date
                   then sql_select [DateBetween (the start_date) (the end_date)] d
                   else if truthy start_date then sql_select [DateGe (the start_date)] d
                   else if truthy end_date then sql_select [DateLe (the end_date)] d
                   else sql_select [] d)) of
        Inr rows \<Rightarrow> (Inr (RList (map expense_dict rows)), d)
      | Inl x \<Rightarrow> (Inr (error_result (''Error listing expenses: '' @ exn_str x)), d))"

text \<open>
  \<^verbatim>\<open>summarize(start_date=None, end_date=None, category=None)\<close>: the conditions are
  appended to the query one after the other.
\<close>

definition summarize ::
  "env \<Rightarrow> db \<Rightarrow> string option \<Rightarrow> string option \<Rightarrow> string option \<Rightarrow> (exn + result) \<times> db" where
  "summarize e d start_date end_date category =
     (case with_connection e
             (Inr (let conds = [];
                       conds = (if truthy start_date \<and> truthy end_date
                                then conds @ [DateBetween (the start_date) (the end_date)]
                                else if truthy start_date then conds @ [DateGe (the start_date)]
                                else if truthy end_date then conds @ [DateLe (the end_date)]
                                else conds);
                       conds = (if truthy category then conds @ [CategoryEq (the category)]
                                else conds)
                   in sql_summarize (sql_sum e) conds d)) of
        Inr rows \<Rightarrow> (Inr (RList (map summary_dict rows)), d)
      | Inl x \<Rightarrow> (Inr (error_result (''Error summarizing expenses: '' @ exn_str x)), d))"

subsection \<open>The category resource\<close>

datatype json = JString string | JArray "json list" | JObject "(string \<times> json) list"

text \<open>
  \<^verbatim>\<open>json.dumps(obj, indent=n)\<close>: items are separated by a comma and a new line, keys
  from values by a colon and a space, and each nesting level is indented by \<open>n\<close>
  spaces. In a string the quote and the backslash are escaped with a backslash; the
  labels that the program serialises hold no other character that JSON escapes.
\<close>

definition escape_char :: "char \<Rightarrow> string" where
  "escape_char c = (if c = CHR 0x22 \<or> c = CHR 0x5C then [CHR 0x5C, c] else [c])"

definition json_string :: "string \<Rightarrow> string" where
  "json_string s = [CHR 0x22] @ concat (map escape_char s) @ [CHR 0x22]"

definition newline_indent :: "nat \<Rightarrow> nat \<Rightarrow> string" where
  "newline_indent n level = CHR 0x0A # replicate (n * level) (CHR '' '')"

fun join :: "string \<Rightarrow> string list \<Rightarrow> string" where
  "join sep [] = []"
| "join sep [x] = x"
| "join sep (x # y # ys) = x @ sep @ join sep (y # ys)"

fun json_dumps :: "nat \<Rightarrow> nat \<Rightarrow> json \<Rightarrow> string" where
  "json_dumps n level (JString s) = json_string s"
| "json_dumps n level (JArray xs) =
     (if xs = [] then ''[]''
      else ''['' @ newline_indent n (level + 1)
           @ join ('','' @ newline_indent n (level + 1)) (map (json_dumps n (level + 1)) xs)
           @ newline_indent n level @ '']'')"
| "json_dumps n level (JObject kvs) =
     (if kvs = [] then ''{}''
      else ''{'' @ newline_indent n (level + 1)
           @ join ('','' @ newline_indent n (level + 1))
               (map (\<lambda>kv. json_string (fst kv) @ '': '' @ json_dumps n (level + 1) (snd kv)) kvs)
           @ newline_indent n level @ ''}'')"

definition default_labels :: "string list" where
  "default_labels =
     [''Food & Dining'', ''Transportation'', ''Shopping'', ''Entertainment'',
      ''Bills & Utilities'', ''Healthcare'', ''Travel'', ''Education'', ''Business'', ''Other'']"

definition default_categories :: json where
  "default_categories = JObject [(''categories'', JArray (map JString default_labels))]"

text \<open>
  A file opened with \<^verbatim>\<open>open(path, "r", encoding="utf-8")\<close> is read in text mode with
  universal newlines: a carriage return followed by a line feed, and a carriage return
  alone, are both read as one line feed.
\<close>

fun universal_newlines :: "string \<Rightarrow> string" where
  "universal_newlines [] = []"
| "universal_newlines [c] = (if c = CHR 0x0D then [CHR 0x0A] else [c])"
| "universal_newlines (c # c' # cs) =
     (if c = CHR 0x0D
      then (if c' = CHR 0x0A then CHR 0x0A # universal_newlines cs
            else CHR 0x0A # universal_newlines (c' # cs))
      else c # universal_newlines (c' # cs))"

text \<open>\<^verbatim>\<open>with open(CATEGORIES_PATH, "r", encoding="utf-8") as f: return f.read()\<close>\<close>

definition read_categories_file :: "env \<Rightarrow> exn + string" where
  "read_categories_file e =
     (case categories_file e of Inl x \<Rightarrow> Inl x | Inr text \<Rightarrow> Inr (universal_newlines text))"

text \<open>
  \<^verbatim>\<open>categories()\<close>: the inner handler catches \<^verbatim>\<open>FileNotFoundError\<close> only, the outer one
  every other exception.
\<close>

definition categories :: "env \<Rightarrow> exn + result" where
  \<open>categories e =
     (case (case read_categories_file e of
              Inr text \<Rightarrow> Inr (RStr text)
            | Inl (FileNotFoundError m) \<Rightarrow> Inr (RStr (json_dumps 2 0 default_categories))
            | Inl x \<Rightarrow> Inl x) of
        Inr r \<Rightarrow> Inr r
      | Inl x \<Rightarrow> Inr (RStr (''{"error": "Could not load categories: '' @ exn_str x @ ''"}'')))\<close>

subsection \<open>The operation surface\<close>

text \<open>
  The calls that the server accepts (\<^verbatim>\<open>@mcp.tool()\<close>, \<^verbatim>\<open>@mcp.resource(...)\<close>), with the
  defaults of the signatures filled in by the caller, and a run of calls, each in its
  own environment, threading the store.
\<close>

datatype call =
    AddExpense real string string string "string option"
  | ListExpenses "string option" "string option"
  | Summarize "string option" "string option" "string option"
  | Categories

fun invoke :: "env \<Rightarrow> db \<Rightarrow> call \<Rightarrow> (exn + result) \<times> db" where
  "invoke e d (AddExpense amount category subcategory note date) =
     add_expense e d amount category subcategory note date"
| "invoke e d (ListExpenses start_date end_date) = list_expenses e d start_date end_date"
| "invoke e d (Summarize start_date end_date category) =
     summarize e d start_date end_date category"
| "invoke e d Categories = (categories e, d)"

fun run :: "db \<Rightarrow> (env \<times> call) list \<Rightarrow> (exn + result) list \<times> db" where
  "run d [] = ([], d)"
| "run d ((e, c) # cs) =
     (let (r, d') = invoke e d c; (rs, d'') = run d' cs in (r # rs, d''))"

text \<open>The identifier that a call reports when it is a successful add.\<close>

fun added_id :: "exn + result \<Rightarrow> int option" where
  "added_id (Inr (RDict [(k1, PyStr s), (k2, PyInt i), (k3, PyStr m)])) =
     (if k1 = ''status'' \<and> s = ''success'' \<and> k2 = ''id'' then Some i else None)"
| "added_id r = None"

fun added_ids :: "(exn + result) list \<Rightarrow> int list" where
  "added_ids [] = []"
| "added_ids (r # rs) = (case added_id r of None \<Rightarrow> added_ids rs | Some i \<Rightarrow> i # added_ids rs)"

subsection \<open>The specification's reading of the filters and of the summary\<close>

text \<open>
  The inclusive lexical bounds as the specification words them: a row is within the
  bounds when its date is at least the start date, if one is given, and at most the end
  date, if one is given.
\<close>

definition in_bounds :: "string option \<Rightarrow> string option \<Rightarrow> expense \<Rightarrow> bool" where
  "in_bounds start_date end_date r =
     ((case start_date of None \<Rightarrow> True | Some s \<Rightarrow> s \<le> date_col r) \<and>
      (case end_date of None \<Rightarrow> True | Some t \<Rightarrow> date_col r \<le> t))"

text \<open>An argument with the empty string read as an argument that is not given.\<close>

definition given :: "string option \<Rightarrow> string option" where
  "given v = (if v = Some [] then None else v)"




subsection \<open>Double precision summation\<close>

text \<open>
  Rounding to double precision (IEEE 754 binary64, round to nearest, ties to even), on
  the real numbers whose rounding is below \<open>2 ^ 1024\<close> in magnitude, so that no
  infinity arises. A double is an integer multiple of a power of two, its unit: the
  unit of a number of magnitude at least \<open>2 ^ 53\<close> is the least \<open>2 ^ n\<close> with the
  magnitude below \<open>2 ^ 53 * 2 ^ n\<close>; the unit of a smaller number is \<open>1 / 2 ^ n\<close> for the
  least \<open>n\<close> with the magnitude at least \<open>2 ^ 52 / 2 ^ n\<close>, and \<open>1 / 2 ^ 1074\<close> for the
  subnormal numbers.
\<close>

definition round_half_even :: "real \<Rightarrow> int" where
  "round_half_even x =
     (let n = \<lfloor>x\<rfloor>; f = x - of_int n
      in if f < 1 / 2 then n else if 1 / 2 < f then n + 1 else if even n then n else n + 1)"

function exponent_up :: "nat \<Rightarrow> real \<Rightarrow> nat" where
  "exponent_up n a = (if n < 971 \<and> 2 ^ 53 * 2 ^ n \<le> a then exponent_up (n + 1) a else n)"
  by pat_completeness auto
termination
  by (relation "measure (\<lambda>(n, a). 971 - n)") auto

function exponent_down :: "nat \<Rightarrow> real \<Rightarrow> nat" where
  "exponent_down n a = (if n < 1074 \<and> a * 2 ^ n < 2 ^ 52 then exponent_down (n + 1) a else n)"
  by pat_completeness auto
termination
  by (relation "measure (\<lambda>(n, a). 1074 - n)") auto

declare exponent_up.simps [simp del] exponent_down.simps [simp del]

definition to_double :: "real \<Rightarrow> real" where
  "to_double x =
     (if x = 0 then 0
      else if 2 ^ 53 \<le> \<bar>x\<bar>
      then (let n = exponent_up 0 \<bar>x\<bar> in of_int (round_half_even (x / 2 ^ n)) * 2 ^ n)
      else (let n = exponent_down 0 \<bar>x\<bar> in of_int (round_half_even (x * 2 ^ n)) / 2 ^ n))"

text \<open>
  \<^verbatim>\<open>SUM\<close> over doubles as SQLite computes it since version 3.43: the compensated
  summation of Kahan, Babuska and Neumaier, which keeps a running sum and a running
  error term, each operation rounding, and returns their sum.
\<close>

definition kbn_step :: "real \<Rightarrow> real \<times> real \<Rightarrow> real \<times> real" where
  "kbn_step r acc =
     (let s = fst acc; c = snd acc; t = to_double (s + r)
      in if \<bar>r\<bar> < \<bar>s\<bar> then (t, to_double (c + to_double (to_double (s - t) + r)))
         else (t, to_double (c + to_double (to_double (r - t) + s))))"

definition double_sum :: "real list \<Rightarrow> real" where
  "double_sum vs = (let acc = fold kbn_step vs (0, 0) in to_double (fst acc + snd acc))"

text \<open>\<^verbatim>\<open>SUM\<close> over doubles as earlier versions compute it: one rounded addition per value.\<close>

definition double_sum_plain :: "real list \<Rightarrow> real" where
  "double_sum_plain vs = fold (\<lambda>v s. to_double (s + v)) vs 0"

subsection \<open>A sample store and sample environments\<close>

definition row1 :: expense where
  "row1 = \<lparr>id_col = 1, date_col = ''2024-01-01'', amount_col = 10.5,
            category_col = ''Food & Dining'', subcategory_col = [], note_col = []\<rparr>"

definition row2 :: expense where
  "row2 = \<lparr>id_col = 2, date_col = ''2024-01-02'', amount_col = 5,
            category_col = ''Food & Dining'', subcategory_col = [], note_col = []\<rparr>"

definition row3 :: expense where
  "row3 = \<lparr>id_col = 3, date_col = ''2024-01-01'', amount_col = 20,
            category_col = ''Transportation'', subcategory_col = [], note_col = []\<rparr>"

definition row4 :: expense where
  "row4 = \<lparr>id_col = 4, date_col = ''2024-02-01'', amount_col = 1,
            category_col = ''test'', subcategory_col = [], note_col = ''unit test licence''\<rparr>"

definition sample_db :: db where
  "sample_db = \<lparr>expenses = [row1, row2, row3, row4], sqlite_sequence = 4\<rparr>"

definition sample_env :: env where
  "sample_env = \<lparr>today = \<lparr>year = 2024, month = 3, day = 7\<rparr>, db_fault = None,
                  categories_file = Inl (FileNotFoundError ''No such file or directory''),
                  sql_sum = double_sum\<rparr>"

definition new_year_env :: env where
  "new_year_env = sample_env\<lparr>today := \<lparr>year = 1999, month = 12, day = 31\<rparr>\<rparr>"






definition readonly_env :: env where
  "readonly_env = sample_env\<lparr>db_fault := Some ''attempt to write a READONLY database''\<rparr>"

definition crlf_env :: env where
  "crlf_env = sample_env\<lparr>categories_file := Inr [CHR ''{'', CHR 0x0D, CHR 0x0A, CHR ''}'']\<rparr>"

definition denied_env :: env where
  "denied_env = sample_env\<lparr>categories_file := Inl (OSError ''Permission denied'')\<rparr>"

section \<open>Properties\<close>

subsection \<open>Conditions\<close>

lemma truthy_simps [simp]: "truthy None = False" "truthy (Some s) = (s \<noteq> [])"
  by (simp_all add: truthy_def)

subsection \<open>Row identifiers\<close>

lemma fold_max_ge: "(a::int) \<le> fold max xs a"
  by (induction xs arbitrary: a) (auto intro: order_trans [OF max.cobounded2])

lemma fold_max_mem: "(x::int) \<in> set xs \<Longrightarrow> x \<le> fold max xs a"
proof (induction xs arbitrary: a)
  case Nil
  then show ?case by simp
next
  case (Cons y ys)
  show ?case
  proof (cases "x = y")
    case True
    have "max y a \<le> fold max ys (max y a)" by (rule fold_max_ge)
    with True show ?thesis by simp
  next
    case False
    with Cons show ?thesis by simp
  qed
qed

lemma fold_max_le: "(\<forall>x\<in>set xs. x \<le> b) \<Longrightarrow> (a::int) \<le> b \<Longrightarrow> fold max xs a \<le> b"
  by (induction xs arbitrary: a) auto

lemma sequence_le_largest: "sqlite_sequence d \<le> largest_rowid d"
  by (simp add: largest_rowid_def fold_max_ge)

lemma id_le_largest: "r \<in> set (expenses d) \<Longrightarrow> id_col r \<le> largest_rowid d"
  by (simp add: largest_rowid_def fold_max_mem)

lemma sql_insert_Inr:
  "sql_insert d dt amt cat sub nt = Inr (i, d') \<longleftrightarrow>
     largest_rowid d < max_rowid \<and> i = largest_rowid d + 1 \<and>
     d' = \<lparr>expenses = expenses d @ [\<lparr>id_col = i, date_col = dt, amount_col = amt,
             category_col = cat, subcategory_col = sub, note_col = nt\<rparr>], sqlite_sequence = i\<rparr>"
  by (auto simp: sql_insert_def Let_def)

lemma largest_after_insert:
  assumes "id_col r = largest_rowid d + 1"
  shows "largest_rowid \<lparr>expenses = expenses d @ [r], sqlite_sequence = largest_rowid d + 1\<rparr> =
           largest_rowid d + 1"
proof -
  have "\<forall>x\<in>set (map id_col (expenses d)). x \<le> largest_rowid d + 1"
    using id_le_largest [of _ d] by fastforce
  then have "fold max (map id_col (expenses d)) (largest_rowid d + 1) \<le> largest_rowid d + 1"
    by (rule fold_max_le) simp
  moreover have "largest_rowid d + 1 \<le> fold max (map id_col (expenses d)) (largest_rowid d + 1)"
    by (rule fold_max_ge)
  ultimately show ?thesis
    using assms by (simp add: largest_rowid_def)
qed

subsection \<open>The store initializer\<close>

text \<open>
  Claim C10. Whenever the store initializer completes (the database layer raises
  nothing and a rowid is left for the probe row), the table it leaves holds exactly
  the rows of the table it found whose category is not \<^verbatim>\<open>'test'\<close>: it deletes the
  rows that users stored under that category together with its own probe row, so
  running it again does not preserve such rows.
\<close>

theorem init_db_deletes_test_rows:
  assumes "db_fault e = None" and "largest_rowid d < max_rowid"
  shows "init_db e d =
           Inr \<lparr>expenses = filter (\<lambda>r. category_col r \<noteq> ''test'') (expenses d),
                sqlite_sequence = largest_rowid d + 1\<rparr>"
  using assms
  by (simp add: init_db_def with_connection_def sql_insert_def Let_def sql_delete_category_def)

text \<open>
  On the sample store the row with identifier 4, which a user stored under the
  category \<^verbatim>\<open>'test'\<close>, is gone after initialization.
\<close>

theorem init_db_deletes_test_rows_witness:
  "db_fault sample_env = None \<and> largest_rowid sample_db < max_rowid \<and>
   row4 \<in> set (expenses sample_db) \<and>
   init_db sample_env sample_db = Inr \<lparr>expenses = [row1, row2, row3], sqlite_sequence = 5\<rparr>"
  using init_db_deletes_test_rows [of sample_env sample_db]
  by (simp add: sample_env_def sample_db_def largest_rowid_def max_rowid_def
      row1_def row2_def row3_def row4_def)

subsection \<open>Adding an expense\<close>

lemma added_id_error [simp]: "added_id (Inr (error_result m)) = None"
  by (simp add: error_result_def)

lemma add_expense_ok:
  assumes "db_fault e = None" and "largest_rowid d < max_rowid"
  shows "add_expense e d amount category subcategory note date =
           (Inr (RDict [(''status'', PyStr ''success''), (''id'', PyInt (largest_rowid d + 1)),
                        (''message'', PyStr ''Expense added successfully'')]),
            \<lparr>expenses = expenses d @
               [\<lparr>id_col = largest_rowid d + 1,
                 date_col = (case date of None \<Rightarrow> isoformat (today e) | Some s \<Rightarrow> s),
                 amount_col = amount, category_col = category, subcategory_col = subcategory,
                 note_col = note\<rparr>],
             sqlite_sequence = largest_rowid d + 1\<rparr>)"
  using assms by (simp add: add_expense_def with_connection_def sql_insert_def Let_def)

lemma add_expense_fault:
  assumes "db_fault e = Some m"
  shows "add_expense e d amount category subcategory note date =
           (Inr (error_result (if py_in ''readonly'' (lower m)
                               then ''Database is in read-only mode. Check file permissions.''
                               else ''Database error: '' @ m)), d)"
  using assms by (simp add: add_expense_def with_connection_def Let_def)

lemma add_expense_full:
  assumes "db_fault e = None" and "max_rowid \<le> largest_rowid d"
  shows "add_expense e d amount category subcategory note date =
           (Inr (error_result ''Database error: database or disk is full''), d)"
  using assms
  by (simp add: add_expense_def with_connection_def sql_insert_def Let_def lower_def lower_char_def)

lemma add_expense_cases:
  obtains (ok) "db_fault e = None" "largest_rowid d < max_rowid"
  | (fault) m where "db_fault e = Some m"
  | (full) "db_fault e = None" "max_rowid \<le> largest_rowid d"
  by (cases "db_fault e"; cases "largest_rowid d < max_rowid") (simp_all add: not_less)

lemma added_id_add_expense:
  "added_id (fst (add_expense e d amount category subcategory note date)) = Some i \<longleftrightarrow>
     db_fault e = None \<and> largest_rowid d < max_rowid \<and> i = largest_rowid d + 1"
  by (cases e d rule: add_expense_cases)
     (auto simp: add_expense_ok add_expense_fault add_expense_full)

subsection \<open>The ISO format of a date\<close>

lemma digit_char_0: "digit_char 0 = CHR ''0''"
  by (simp add: digit_char_def)

lemma decimal_1: "n < 10 \<Longrightarrow> decimal n = [digit_char n]"
  by (simp add: decimal.simps [of n])

lemma decimal_2:
  assumes "10 \<le> n" and "n < 100"
  shows "decimal n = [digit_char (n div 10), digit_char n]"
proof -
  from assms have "n div 10 < 10" by simp
  then have "decimal (n div 10) = [digit_char (n div 10)]" by (rule decimal_1)
  with assms show ?thesis by (simp add: decimal.simps [of n])
qed

lemma decimal_3:
  assumes "100 \<le> n" and "n < 1000"
  shows "decimal n = [digit_char (n div 100), digit_char (n div 10), digit_char n]"
proof -
  from assms have "10 \<le> n div 10" "n div 10 < 100" by simp_all
  then have "decimal (n div 10) = [digit_char (n div 10 div 10), digit_char (n div 10)]"
    by (rule decimal_2)
  moreover have "n div 10 div 10 = n div 100" by (simp add: div_mult2_eq [symmetric])
  ultimately show ?thesis using assms by (simp add: decimal.simps [of n])
qed

lemma decimal_4:
  assumes "1000 \<le> n" and "n < 10000"
  shows "decimal n =
           [digit_char (n div 1000), digit_char (n div 100), digit_char (n div 10), digit_char n]"
proof -
  from assms have "100 \<le> n div 10" "n div 10 < 1000" by simp_all
  then have "decimal (n div 10) =
      [digit_char (n div 10 div 100), digit_char (n div 10 div 10), digit_char (n div 10)]"
    by (rule decimal_3)
  moreover have "n div 10 div 10 = n div 100" "n div 10 div 100 = n div 1000"
    by (simp_all add: div_mult2_eq [symmetric])
  ultimately show ?thesis using assms by (simp add: decimal.simps [of n])
qed

lemma replicate_small: "replicate 2 c = [c, c]" "replicate 3 c = [c, c, c]"
  by (simp_all add: numeral_2_eq_2 numeral_3_eq_3)

lemma zero_pad2:
  assumes "n < 100"
  shows "zero_pad 2 n = [digit_char (n div 10), digit_char n]"
proof (cases "n < 10")
  case True
  then show ?thesis by (simp add: zero_pad_def decimal_1 digit_char_0)
next
  case False
  with assms show ?thesis by (simp add: zero_pad_def decimal_2)
qed

lemma zero_pad4:
  assumes "n < 10000"
  shows "zero_pad 4 n =
           [digit_char (n div 1000), digit_char (n div 100), digit_char (n div 10), digit_char n]"
proof -
  consider "n < 10" | "10 \<le> n" "n < 100" | "100 \<le> n" "n < 1000" | "1000 \<le> n"
    by linarith
  then show ?thesis
  proof cases
    case 1
    then show ?thesis by (simp add: zero_pad_def decimal_1 digit_char_0 replicate_small)
  next
    case 2
    then show ?thesis by (simp add: zero_pad_def decimal_2 digit_char_0 replicate_small)
  next
    case 3
    then show ?thesis by (simp add: zero_pad_def decimal_3 digit_char_0)
  next
    case 4
    with assms show ?thesis by (simp add: zero_pad_def decimal_4)
  qed
qed

lemma isoformat_shape:
  assumes "year d < 10000" and "month d < 100" and "day d < 100"
  shows "isoformat d =
           [digit_char (year d div 1000), digit_char (year d div 100), digit_char (year d div 10),
            digit_char (year d), CHR ''-'', digit_char (month d div 10), digit_char (month d),
            CHR ''-'', digit_char (day d div 10), digit_char (day d)]"
  using assms by (simp add: isoformat_def zero_pad2 zero_pad4)

lemma of_char_digit_char: "of_char (digit_char n) = (48 + n mod 10 :: nat)"
proof -
  define k where "k = n mod 10"
  then have "k < 10" by simp
  then have "k = 0 \<or> k = 1 \<or> k = 2 \<or> k = 3 \<or> k = 4 \<or> k = 5 \<or> k = 6 \<or> k = 7 \<or> k = 8 \<or> k = 9"
    by arith
  then have "of_char (''0123456789'' ! k) = (48 + k :: nat)"
    by (elim disjE) simp_all
  then show ?thesis by (simp add: digit_char_def k_def)
qed

text \<open>
  Claim C4. When a call of \<^verbatim>\<open>add_expense\<close> succeeds and reports the identifier \<open>i\<close>,
  the store is the former store followed by one row with that identifier. If a date
  string is supplied, the date of that row is that string, unmodified. If the date
  argument is \<^verbatim>\<open>None\<close>, the date of that row is the clock's calendar date in ISO
  format: for a calendar date (a year up to 9999, a month up to 12, a day up to 31) its
  ten characters are, by their codes, the four decimal digits of the year, a hyphen
  (code 45), the two digits of the month, a hyphen and the two digits of the day, the
  digit \<open>k\<close> having the code \<open>48 + k\<close>.
\<close>

theorem add_expense_stores_date:
  assumes "added_id (fst (add_expense e d amount category subcategory nt date)) = Some i"
  shows "\<exists>r. expenses (snd (add_expense e d amount category subcategory nt date)) =
               expenses d @ [r] \<and>
             id_col r = i \<and>
             date_col r = (case date of None \<Rightarrow> isoformat (today e) | Some s \<Rightarrow> s) \<and>
             (\<forall>s. date = Some s \<longrightarrow> date_col r = s) \<and>
             (date = None \<longrightarrow> year (today e) \<le> 9999 \<longrightarrow> month (today e) \<le> 12 \<longrightarrow>
                day (today e) \<le> 31 \<longrightarrow>
                map of_char (date_col r) =
                  [48 + year (today e) div 1000 mod 10, 48 + year (today e) div 100 mod 10,
                   48 + year (today e) div 10 mod 10, 48 + year (today e) mod 10, 45,
                   48 + month (today e) div 10 mod 10, 48 + month (today e) mod 10, 45,
                   48 + day (today e) div 10 mod 10, 48 + day (today e) mod 10 :: nat])"
proof -
  have shape: "map of_char (isoformat (today e)) =
      [48 + year (today e) div 1000 mod 10, 48 + year (today e) div 100 mod 10,
       48 + year (today e) div 10 mod 10, 48 + year (today e) mod 10, 45,
       48 + month (today e) div 10 mod 10, 48 + month (today e) mod 10, 45,
       48 + day (today e) div 10 mod 10, 48 + day (today e) mod 10 :: nat]"
    if "year (today e) \<le> 9999" "month (today e) \<le> 12" "day (today e) \<le> 31"
  proof -
    from that have "year (today e) < 10000" "month (today e) < 100" "day (today e) < 100"
      by simp_all
    then show ?thesis
      by (simp add: isoformat_shape of_char_digit_char)
  qed
  from assms have ok: "db_fault e = None" "largest_rowid d < max_rowid" "i = largest_rowid d + 1"
    by (simp_all add: added_id_add_expense)
  show ?thesis
    using shape by (cases date) (simp_all add: add_expense_ok [OF ok(1,2)] ok(3))
qed

text \<open>
  Two clocks and one explicit date: the seventh of March 2024, the last day of 1999,
  and a string that is no date at all.
\<close>

theorem add_expense_stores_date_witness:
  "added_id (fst (add_expense sample_env sample_db 7 ''Travel'' [] [] None)) = Some 5 \<and>
   added_id (fst (add_expense new_year_env sample_db 7 ''Travel'' [] [] None)) = Some 5 \<and>
   added_id (fst (add_expense sample_env sample_db 7 ''Travel'' [] [] (Some ''yesterday''))) = Some 5 \<and>
   (\<exists>r. expenses (snd (add_expense sample_env sample_db 7 ''Travel'' [] [] None)) =
          expenses sample_db @ [r] \<and> id_col r = 5 \<and> date_col r = ''2024-03-07'') \<and>
   (\<exists>r. expenses (snd (add_expense new_year_env sample_db 7 ''Travel'' [] [] None)) =
          expenses sample_db @ [r] \<and> id_col r = 5 \<and> date_col r = ''1999-12-31'') \<and>
   (\<exists>r. expenses (snd (add_expense sample_env sample_db 7 ''Travel'' [] [] (Some ''yesterday''))) =
          expenses sample_db @ [r] \<and> id_col r = 5 \<and> date_col r = ''yesterday'')"
proof -
  have f: "db_fault sample_env = None" "db_fault new_year_env = None"
    by (simp_all add: sample_env_def new_year_env_def)
  have l: "largest_rowid sample_db < max_rowid" "largest_rowid sample_db + 1 = 5"
    by (simp_all add: sample_db_def largest_rowid_def max_rowid_def
        row1_def row2_def row3_def row4_def)
  have a: "added_id (fst (add_expense sample_env sample_db 7 ''Travel'' [] [] dt)) = Some 5" for dt
    using f l by (simp add: add_expense_ok)
  have b: "added_id (fst (add_expense new_year_env sample_db 7 ''Travel'' [] [] None)) = Some 5"
    using f l by (simp add: add_expense_ok)
  have inj: "s = t" if "map of_char s = (map of_char t :: nat list)" for s t :: string
    using that by (simp add: inj_map_eq_map inj_on_def)
  have t1: "today sample_env = \<lparr>year = 2024, month = 3, day = 7\<rparr>"
    and t2: "today new_year_env = \<lparr>year = 1999, month = 12, day = 31\<rparr>"
    by (simp_all add: sample_env_def new_year_env_def)
  from add_expense_stores_date [OF a [of None]] obtain r1 where
    r1: "expenses (snd (add_expense sample_env sample_db 7 ''Travel'' [] [] None)) =
          expenses sample_db @ [r1]" "id_col r1 = 5"
    and i1: "year (today sample_env) \<le> 9999 \<longrightarrow> month (today sample_env) \<le> 12 \<longrightarrow>
        day (today sample_env) \<le> 31 \<longrightarrow>
        map of_char (date_col r1) =
          [48 + year (today sample_env) div 1000 mod 10, 48 + year (today sample_env) div 100 mod 10,
           48 + year (today sample_env) div 10 mod 10, 48 + year (today sample_env) mod 10, 45,
           48 + month (today sample_env) div 10 mod 10, 48 + month (today sample_env) mod 10, 45,
           48 + day (today sample_env) div 10 mod 10, 48 + day (today sample_env) mod 10 :: nat]"
    by (elim exE conjE) simp
  from add_expense_stores_date [OF b] obtain r2 where
    r2: "expenses (snd (add_expense new_year_env sample_db 7 ''Travel'' [] [] None)) =
          expenses sample_db @ [r2]" "id_col r2 = 5"
    and i2: "year (today new_year_env) \<le> 9999 \<longrightarrow> month (today new_year_env) \<le> 12 \<longrightarrow>
        day (today new_year_env) \<le> 31 \<longrightarrow>
        map of_char (date_col r2) =
          [48 + year (today new_year_env) div 1000 mod 10,
           48 + year (today new_year_env) div 100 mod 10,
           48 + year (today new_year_env) div 10 mod 10, 48 + year (today new_year_env) mod 10, 45,
           48 + month (today new_year_env) div 10 mod 10, 48 + month (today new_year_env) mod 10, 45,
           48 + day (today new_year_env) div 10 mod 10, 48 + day (today new_year_env) mod 10 :: nat]"
    by (elim exE conjE) simp
  from add_expense_stores_date [OF a [of "Some ''yesterday''"]] obtain r3 where
    r3: "expenses (snd (add_expense sample_env sample_db 7 ''Travel'' [] [] (Some ''yesterday''))) =
          expenses sample_db @ [r3]" "id_col r3 = 5" "date_col r3 = ''yesterday''"
    by (elim exE conjE) simp
  from i1 have "map of_char (date_col r1) = (map of_char ''2024-03-07'' :: nat list)"
    by (simp add: t1)
  then have d1: "date_col r1 = ''2024-03-07''" by (rule inj)
  from i2 have "map of_char (date_col r2) = (map of_char ''1999-12-31'' :: nat list)"
    by (simp add: t2)
  then have d2: "date_col r2 = ''1999-12-31''" by (rule inj)
  from a b r1 r2 r3 d1 d2 show ?thesis by blast
qed

subsection \<open>What the operations do to the store\<close>

lemma snd_list_expenses: "snd (list_expenses e d start_date end_date) = d"
  by (simp add: list_expenses_def with_connection_def split: option.split)

lemma snd_summarize: "snd (summarize e d start_date end_date category) = d"
  by (simp add: summarize_def with_connection_def split: option.split)

lemma added_id_list_expenses: "added_id (fst (list_expenses e d start_date end_date)) = None"
  by (simp add: list_expenses_def with_connection_def split: option.split)

lemma added_id_summarize: "added_id (fst (summarize e d start_date end_date category)) = None"
  by (simp add: summarize_def with_connection_def split: option.split)

lemma added_id_categories: "added_id (categories e) = None"
  by (simp add: categories_def split: sum.split exn.split)

lemma snd_add_expense_failed:
  assumes "added_id (fst (add_expense e d amount category subcategory note date)) = None"
  shows "snd (add_expense e d amount category subcategory note date) = d"
  using assms
  by (cases e d rule: add_expense_cases)
     (simp_all add: add_expense_ok add_expense_fault add_expense_full)

lemma invoke_not_added:
  assumes "added_id (fst (invoke e d c)) = None"
  shows "snd (invoke e d c) = d"
  using assms by (cases c) (simp_all add: snd_add_expense_failed snd_list_expenses snd_summarize)

lemma invoke_added:
  assumes "added_id (fst (invoke e d c)) = Some i"
  shows "largest_rowid d < max_rowid \<and> i = largest_rowid d + 1 \<and>
         (\<exists>r. id_col r = i \<and>
              snd (invoke e d c) = \<lparr>expenses = expenses d @ [r], sqlite_sequence = i\<rparr>)"
proof (cases c)
  case (AddExpense amount category subcategory nt date)
  with assms have "db_fault e = None \<and> largest_rowid d < max_rowid \<and> i = largest_rowid d + 1"
    by (simp add: added_id_add_expense)
  with AddExpense show ?thesis by (simp add: add_expense_ok)
next
  case (ListExpenses s t)
  with assms show ?thesis by (simp add: added_id_list_expenses)
next
  case (Summarize s t cat)
  with assms show ?thesis by (simp add: added_id_summarize)
next
  case Categories
  with assms show ?thesis by (simp add: added_id_categories)
qed

lemma invoke_prefix: "prefix (expenses d) (expenses (snd (invoke e d c)))"
proof (cases "added_id (fst (invoke e d c))")
  case None
  then show ?thesis by (simp add: invoke_not_added)
next
  case (Some i)
  from invoke_added [OF this] show ?thesis by auto
qed

lemma run_prefix: "prefix (expenses d) (expenses (snd (run d cs)))"
proof (induction cs arbitrary: d)
  case Nil
  then show ?case by simp
next
  case (Cons a cs)
  obtain e c where a: "a = (e, c)" by (cases a)
  have "prefix (expenses d) (expenses (snd (invoke e d c)))" by (rule invoke_prefix)
  moreover have "prefix (expenses (snd (invoke e d c))) (expenses (snd (run (snd (invoke e d c)) cs)))"
    by (rule Cons.IH)
  ultimately show ?case
    using a by (auto simp: split_beta Let_def intro: prefix_order.trans)
qed

text \<open>
  Claim C5. A successful \<^verbatim>\<open>add_expense\<close> leaves the former rows as they were and
  appends exactly one row; an \<^verbatim>\<open>add_expense\<close> that fails, \<^verbatim>\<open>list_expenses\<close>,
  \<^verbatim>\<open>summarize\<close> and \<^verbatim>\<open>categories\<close> leave the store as it was. So after any exposed
  operation, and after any run of them, the former table is an initial segment of the
  table: no row is updated and none is deleted.
\<close>

theorem store_only_grows:
  "(added_id (fst (add_expense e d amount category subcategory note date)) = Some i \<longrightarrow>
      (\<exists>r. expenses (snd (add_expense e d amount category subcategory note date)) =
             expenses d @ [r])) \<and>
   (added_id (fst (add_expense e d amount category subcategory note date)) = None \<longrightarrow>
      snd (add_expense e d amount category subcategory note date) = d) \<and>
   snd (list_expenses e d start_date end_date) = d \<and>
   snd (summarize e d start_date end_date cat) = d \<and>
   snd (invoke e d Categories) = d \<and>
   prefix (expenses d) (expenses (snd (invoke e d c))) \<and>
   prefix (expenses d) (expenses (snd (run d cs)))"
proof -
  have "\<exists>r. expenses (snd (add_expense e d amount category subcategory note date)) =
             expenses d @ [r]"
    if "added_id (fst (add_expense e d amount category subcategory note date)) = Some i"
    using that by (simp add: added_id_add_expense add_expense_ok)
  then show ?thesis
    by (simp add: snd_add_expense_failed snd_list_expenses snd_summarize invoke_prefix run_prefix)
qed

lemma largest_rowid_sample: "largest_rowid sample_db = 4"
  by (simp add: sample_db_def largest_rowid_def row1_def row2_def row3_def row4_def)

theorem store_only_grows_witness:
  "added_id (fst (add_expense sample_env sample_db 7 ''Travel'' [] [] None)) = Some 5 \<and>
   (\<exists>r. expenses (snd (add_expense sample_env sample_db 7 ''Travel'' [] [] None)) =
          [row1, row2, row3, row4, r]) \<and>
   added_id (fst (add_expense readonly_env sample_db 7 ''Travel'' [] [] None)) = None \<and>
   snd (add_expense readonly_env sample_db 7 ''Travel'' [] [] None) = sample_db"
proof -
  have a: "added_id (fst (add_expense sample_env sample_db 7 ''Travel'' [] [] None)) = Some 5"
    by (simp add: add_expense_ok largest_rowid_sample sample_env_def max_rowid_def)
  have b: "added_id (fst (add_expense readonly_env sample_db 7 ''Travel'' [] [] None)) = None"
    by (simp add: add_expense_fault [of _ "''attempt to write a READONLY database''"] readonly_env_def)
  from a b
    store_only_grows [of sample_env sample_db 7 "''Travel''" "[]" "[]" None 5]
    store_only_grows [of readonly_env sample_db 7 "''Travel''" "[]" "[]" None]
  show ?thesis
    by (simp add: sample_db_def)
qed

subsection \<open>Identifiers over a run of calls\<close>

lemma run_ids:
  "map id_col (expenses (snd (run d cs))) = map id_col (expenses d) @ added_ids (fst (run d cs)) \<and>
   sorted_wrt (<) (added_ids (fst (run d cs))) \<and>
   (\<forall>i\<in>set (added_ids (fst (run d cs))). largest_rowid d < i)"
proof (induction cs arbitrary: d)
  case Nil
  then show ?case by simp
next
  case (Cons a cs)
  obtain e c where a: "a = (e, c)" by (cases a)
  define d' where "d' = snd (invoke e d c)"
  have run: "run d (a # cs) = (fst (invoke e d c) # fst (run d' cs), snd (run d' cs))"
    by (simp add: a d'_def split_beta Let_def)
  note IH = Cons.IH [of d']
  show ?case
  proof (cases "added_id (fst (invoke e d c))")
    case None
    then have "d' = d" by (simp add: d'_def invoke_not_added)
    with None IH show ?thesis by (simp add: run)
  next
    case (Some i)
    from invoke_added [OF Some] obtain r where
      i: "i = largest_rowid d + 1" and r: "id_col r = i"
      and d': "d' = \<lparr>expenses = expenses d @ [r], sqlite_sequence = i\<rparr>"
      by (auto simp: d'_def)
    have "largest_rowid d' = i"
      using largest_after_insert [of r d] i r d' by simp
    with IH Some i r d' show ?thesis
      by (auto simp: run)
  qed
qed


text \<open>
  Claim C6. Over any run of exposed operations from any store, the identifiers that
  the successful adds report are strictly increasing in the order of the calls, hence
  pairwise distinct, and each is larger than the identifier of every row that the
  store held before the run. They are the identifiers of the rows appended, so a
  table whose identifiers are distinct keeps distinct identifiers.
\<close>

theorem identifiers_strictly_increase:
  "map id_col (expenses (snd (run d cs))) = map id_col (expenses d) @ added_ids (fst (run d cs)) \<and>
   sorted_wrt (<) (added_ids (fst (run d cs))) \<and>
   distinct (added_ids (fst (run d cs))) \<and>
   (\<forall>i\<in>set (added_ids (fst (run d cs))). \<forall>r\<in>set (expenses d). id_col r < i) \<and>
   (distinct (map id_col (expenses d)) \<longrightarrow> distinct (map id_col (expenses (snd (run d cs)))))"
proof -
  let ?ids = "added_ids (fst (run d cs))"
  have ids: "map id_col (expenses (snd (run d cs))) = map id_col (expenses d) @ ?ids"
    and sorted: "sorted_wrt (<) ?ids"
    and above: "\<forall>i\<in>set ?ids. largest_rowid d < i"
    using run_ids [of d cs] by simp_all
  have dist: "distinct ?ids"
    using sorted by (simp add: strict_sorted_iff)
  have old: "id_col r < i" if "i \<in> set ?ids" and "r \<in> set (expenses d)" for i r
    using above that id_le_largest [of r d] by fastforce
  have "distinct (map id_col (expenses (snd (run d cs))))" if "distinct (map id_col (expenses d))"
    using that dist old by (fastforce simp: ids)
  with ids sorted dist old show ?thesis by blast
qed

theorem identifiers_strictly_increase_witness:
  "added_ids (fst (run sample_db
      [(sample_env, AddExpense 7 ''Travel'' [] [] None),
       (readonly_env, AddExpense 8 ''Travel'' [] [] None),
       (sample_env, ListExpenses None None),
       (sample_env, AddExpense 9 ''Other'' [] [] (Some ''2024-03-01''))])) = [5, 6] \<and>
   distinct (map id_col (expenses sample_db)) \<and>
   map id_col (expenses (snd (run sample_db
      [(sample_env, AddExpense 7 ''Travel'' [] [] None),
       (readonly_env, AddExpense 8 ''Travel'' [] [] None),
       (sample_env, ListExpenses None None),
       (sample_env, AddExpense 9 ''Other'' [] [] (Some ''2024-03-01''))]))) = [1, 2, 3, 4, 5, 6]"
proof -
  let ?cs = "[(sample_env, AddExpense 7 ''Travel'' [] [] None),
       (readonly_env, AddExpense 8 ''Travel'' [] [] None),
       (sample_env, ListExpenses None None),
       (sample_env, AddExpense 9 ''Other'' [] [] (Some ''2024-03-01''))]"
  have ok: "db_fault sample_env = None" "db_fault readonly_env = Some ''attempt to write a READONLY database''"
    by (simp_all add: sample_env_def readonly_env_def)
  have l5: "largest_rowid \<lparr>expenses = expenses sample_db @ [r], sqlite_sequence = 5\<rparr> = 5"
    if "id_col r = 5" for r
    using that largest_after_insert [of r sample_db] by (simp add: largest_rowid_sample)
  have "added_ids (fst (run sample_db ?cs)) = [5, 6]"
    using ok
    by (simp add: split_beta Let_def add_expense_ok add_expense_fault largest_rowid_sample
        max_rowid_def l5 added_id_list_expenses snd_list_expenses)
  moreover have "map id_col (expenses sample_db) = [1, 2, 3, 4]"
    by (simp add: sample_db_def row1_def row2_def row3_def row4_def)
  ultimately show ?thesis
    using identifiers_strictly_increase [of sample_db ?cs] by simp
qed

subsection \<open>Failures are returned as data\<close>

lemma startswith_prefix: "startswith s p \<longleftrightarrow> prefix p s"
  by (induction s p rule: startswith.induct) auto

lemma py_in_sublist: "py_in sub s \<longleftrightarrow> sublist sub s"
  by (induction s) (simp_all add: startswith_prefix sublist_Cons_right)

lemma invoke_returns: "\<exists>r. fst (invoke e d c) = Inr r"
proof (cases c)
  case (AddExpense amount category subcategory nt date)
  then show ?thesis
    by (cases e d rule: add_expense_cases)
       (simp_all add: add_expense_ok add_expense_fault add_expense_full)
next
  case (ListExpenses s t)
  then show ?thesis by (simp add: list_expenses_def with_connection_def split: option.split)
next
  case (Summarize s t cat)
  then show ?thesis by (simp add: summarize_def with_connection_def split: option.split)
next
  case Categories
  then show ?thesis by (simp add: categories_def split: sum.split exn.split)
qed

lemma add_expense_not_added:
  assumes "added_id (fst (add_expense e d amount category subcategory nt date)) = None"
  shows "\<exists>msg. fst (add_expense e d amount category subcategory nt date) = Inr (error_result msg)"
  using assms
  by (cases e d rule: add_expense_cases)
     (auto simp: add_expense_ok add_expense_fault add_expense_full)

text \<open>
  Claim C3. No exposed operation lets an exception escape: every call returns a value.
  An \<^verbatim>\<open>add_expense\<close> that does not succeed returns a mapping with status
  \<^verbatim>\<open>"error"\<close> and a message. When the database layer raises with text \<open>m\<close>,
  \<^verbatim>\<open>add_expense\<close>, \<^verbatim>\<open>list_expenses\<close> and \<^verbatim>\<open>summarize\<close> each return such a mapping, and
  \<^verbatim>\<open>add_expense\<close> reports the read-only failure exactly when the lower-cased text
  contains \<^verbatim>\<open>readonly\<close>, and the generic failure with the text otherwise.
\<close>

theorem failures_are_returned_as_data:
  "(\<exists>r. fst (invoke e d c) = Inr r) \<and>
   (added_id (fst (add_expense e d amount category subcategory nt date)) = None \<longrightarrow>
      (\<exists>msg. fst (add_expense e d amount category subcategory nt date) =
             Inr (RDict [(''status'', PyStr ''error''), (''message'', PyStr msg)]))) \<and>
   (db_fault e = Some m \<longrightarrow>
      fst (add_expense e d amount category subcategory nt date) =
        Inr (RDict [(''status'', PyStr ''error''),
                    (''message'', PyStr (if sublist ''readonly'' (lower m)
                       then ''Database is in read-only mode. Check file permissions.''
                       else ''Database error: '' @ m))]) \<and>
      (fst (add_expense e d amount category subcategory nt date) =
         Inr (RDict [(''status'', PyStr ''error''),
                     (''message'', PyStr ''Database is in read-only mode. Check file permissions.'')])
       \<longleftrightarrow> sublist ''readonly'' (lower m)) \<and>
      fst (list_expenses e d start_date end_date) =
        Inr (RDict [(''status'', PyStr ''error''),
                    (''message'', PyStr (''Error listing expenses: '' @ m))]) \<and>
      fst (summarize e d start_date end_date cat) =
        Inr (RDict [(''status'', PyStr ''error''),
                    (''message'', PyStr (''Error summarizing expenses: '' @ m))]))"
proof -
  have 1: "\<exists>r. fst (invoke e d c) = Inr r" by (rule invoke_returns)
  have 2: "\<exists>msg. fst (add_expense e d amount category subcategory nt date) =
             Inr (RDict [(''status'', PyStr ''error''), (''message'', PyStr msg)])"
    if "added_id (fst (add_expense e d amount category subcategory nt date)) = None"
    using add_expense_not_added [OF that] by (simp add: error_result_def)
  have 3: "fst (add_expense e d amount category subcategory nt date) =
        Inr (RDict [(''status'', PyStr ''error''),
                    (''message'', PyStr (if sublist ''readonly'' (lower m)
                       then ''Database is in read-only mode. Check file permissions.''
                       else ''Database error: '' @ m))])"
    if "db_fault e = Some m"
    using that by (simp add: add_expense_fault error_result_def py_in_sublist)
  have 4: "fst (list_expenses e d start_date end_date) =
        Inr (RDict [(''status'', PyStr ''error''),
                    (''message'', PyStr (''Error listing expenses: '' @ m))])"
    if "db_fault e = Some m"
    using that by (simp add: list_expenses_def with_connection_def error_result_def)
  have 5: "fst (summarize e d start_date end_date cat) =
        Inr (RDict [(''status'', PyStr ''error''),
                    (''message'', PyStr (''Error summarizing expenses: '' @ m))])"
    if "db_fault e = Some m"
    using that by (simp add: summarize_def with_connection_def error_result_def)
  have 6: "(fst (add_expense e d amount category subcategory nt date) =
         Inr (RDict [(''status'', PyStr ''error''),
                     (''message'', PyStr ''Database is in read-only mode. Check file permissions.'')])
       \<longleftrightarrow> sublist ''readonly'' (lower m))"
    if "db_fault e = Some m"
    using 3 [OF that] by auto
  from 1 2 3 4 5 6 show ?thesis by blast
qed

theorem failures_are_returned_as_data_witness:
  "db_fault readonly_env = Some ''attempt to write a READONLY database'' \<and>
   sublist ''readonly'' (lower ''attempt to write a READONLY database'') \<and>
   fst (add_expense readonly_env sample_db 7 ''Travel'' [] [] None) =
     Inr (RDict [(''status'', PyStr ''error''),
                 (''message'', PyStr ''Database is in read-only mode. Check file permissions.'')]) \<and>
   fst (list_expenses readonly_env sample_db None None) =
     Inr (RDict [(''status'', PyStr ''error''),
                 (''message'', PyStr ''Error listing expenses: attempt to write a READONLY database'')])"
proof -
  have f: "db_fault readonly_env = Some ''attempt to write a READONLY database''"
    by (simp add: readonly_env_def)
  have s: "sublist ''readonly'' (lower ''attempt to write a READONLY database'')"
    unfolding py_in_sublist [symmetric] by (simp add: lower_def lower_char_def)
  from f s failures_are_returned_as_data
    [of readonly_env sample_db "ListExpenses None None" 7 "''Travel''" "[]" "[]" None
        "''attempt to write a READONLY database''" None None None]
  show ?thesis by simp
qed

subsection \<open>The category resource\<close>

lemma universal_newlines_id: "CHR 0x0D \<notin> set s \<Longrightarrow> universal_newlines s = s"
  by (induction s rule: universal_newlines.induct) auto

lemma replicate_indent: "replicate 2 c = [c, c]" "replicate 4 c = [c, c, c, c]"
  by (simp_all add: numeral_2_eq_2 eval_nat_numeral)

lemma default_document:
  \<open>json_dumps 2 0 default_categories =
     ''{\<newline>  "categories": [\<newline>    "Food & Dining",\<newline>    "Transportation",\<newline>    "Shopping",\<newline>    "Entertainment",\<newline>    "Bills & Utilities",\<newline>    "Healthcare",\<newline>    "Travel",\<newline>    "Education",\<newline>    "Business",\<newline>    "Other"\<newline>  ]\<newline>}''\<close>
  by (simp add: default_categories_def default_labels_def json_string_def escape_char_def
      newline_indent_def replicate_indent)

text \<open>
  Claim C8, amended. When the category file is absent, \<^verbatim>\<open>categories\<close> returns the JSON
  document, indented by two spaces, whose only key \<^verbatim>\<open>"categories"\<close> holds the ten default
  labels in their order. When the file is present and decodes, its text is returned
  with every carriage return and line feed pair and every lone carriage return read as
  one line feed, hence unchanged when it holds no carriage return. On every other
  exception of the read, the inline error document with the text of the exception is
  returned.
\<close>

theorem categories_resource:
  \<open>(categories_file e = Inl (FileNotFoundError m) \<longrightarrow>
      categories e =
        Inr (RStr (json_dumps 2 0 (JObject [(''categories'', JArray (map JString
          [''Food & Dining'', ''Transportation'', ''Shopping'', ''Entertainment'',
           ''Bills & Utilities'', ''Healthcare'', ''Travel'', ''Education'', ''Business'',
           ''Other'']))]))) \<and>
      categories e =
        Inr (RStr ''{\<newline>  "categories": [\<newline>    "Food & Dining",\<newline>    "Transportation",\<newline>    "Shopping",\<newline>    "Entertainment",\<newline>    "Bills & Utilities",\<newline>    "Healthcare",\<newline>    "Travel",\<newline>    "Education",\<newline>    "Business",\<newline>    "Other"\<newline>  ]\<newline>}'')) \<and>
   (categories_file e = Inr text \<longrightarrow> categories e = Inr (RStr (universal_newlines text))) \<and>
   (categories_file e = Inr text \<longrightarrow> CHR 0x0D \<notin> set text \<longrightarrow> categories e = Inr (RStr text)) \<and>
   (categories_file e = Inl x \<longrightarrow> (\<forall>m. x \<noteq> FileNotFoundError m) \<longrightarrow>
      categories e = Inr (RStr (''{"error": "Could not load categories: '' @ exn_str x @ ''"}'')))\<close>
proof -
  have 1: "categories e = Inr (RStr (json_dumps 2 0 default_categories))"
    if "categories_file e = Inl (FileNotFoundError m)"
    using that by (simp add: categories_def read_categories_file_def)
  have 2: "categories e = Inr (RStr (universal_newlines text))" if "categories_file e = Inr text"
    using that by (simp add: categories_def read_categories_file_def)
  have 3: \<open>categories e = Inr (RStr (''{"error": "Could not load categories: '' @ exn_str x @ ''"}''))\<close>
    if "categories_file e = Inl x" "\<forall>m. x \<noteq> FileNotFoundError m"
    using that by (cases x) (simp_all add: categories_def read_categories_file_def)
  show ?thesis
    using 1 2 3 default_document
    by (auto simp: universal_newlines_id default_categories_def default_labels_def
        simp del: json_dumps.simps)
qed

theorem categories_resource_witness:
  \<open>categories_file sample_env = Inl (FileNotFoundError ''No such file or directory'') \<and>
   categories sample_env =
     Inr (RStr ''{\<newline>  "categories": [\<newline>    "Food & Dining",\<newline>    "Transportation",\<newline>    "Shopping",\<newline>    "Entertainment",\<newline>    "Bills & Utilities",\<newline>    "Healthcare",\<newline>    "Travel",\<newline>    "Education",\<newline>    "Business",\<newline>    "Other"\<newline>  ]\<newline>}'') \<and>
   categories_file denied_env = Inl (OSError ''Permission denied'') \<and>
   categories denied_env = Inr (RStr ''{"error": "Could not load categories: Permission denied"}'') \<and>
   categories_file (sample_env\<lparr>categories_file := Inr ''{"categories": ["Rent"]}''\<rparr>) =
     Inr ''{"categories": ["Rent"]}'' \<and>
   categories (sample_env\<lparr>categories_file := Inr ''{"categories": ["Rent"]}''\<rparr>) =
     Inr (RStr ''{"categories": ["Rent"]}'')\<close>
proof -
  have a: "categories_file sample_env = Inl (FileNotFoundError ''No such file or directory'')"
    by (simp add: sample_env_def)
  have b: "categories_file denied_env = Inl (OSError ''Permission denied'')"
    by (simp add: denied_env_def)
  have c: \<open>categories_file (sample_env\<lparr>categories_file := Inr ''{"categories": ["Rent"]}''\<rparr>) =
     Inr ''{"categories": ["Rent"]}''\<close>
    by simp
  note thm1 = categories_resource [of sample_env "''No such file or directory''" "[]"
      "OSError []"]
  note thm2 = categories_resource [of denied_env "[]" "[]" "OSError ''Permission denied''"]
  note thm3 = categories_resource
      [of \<open>sample_env\<lparr>categories_file := Inr ''{"categories": ["Rent"]}''\<rparr>\<close>
          "[]" \<open>''{"categories": ["Rent"]}''\<close> "OSError []"]
  from thm1 a have 1: \<open>categories sample_env =
     Inr (RStr ''{\<newline>  "categories": [\<newline>    "Food & Dining",\<newline>    "Transportation",\<newline>    "Shopping",\<newline>    "Entertainment",\<newline>    "Bills & Utilities",\<newline>    "Healthcare",\<newline>    "Travel",\<newline>    "Education",\<newline>    "Business",\<newline>    "Other"\<newline>  ]\<newline>}'')\<close>
    by blast
  from thm2 b have 2: \<open>categories denied_env =
      Inr (RStr ''{"error": "Could not load categories: Permission denied"}'')\<close>
    by simp
  from thm3 c have 3: \<open>categories (sample_env\<lparr>categories_file := Inr ''{"categories": ["Rent"]}''\<rparr>) =
     Inr (RStr ''{"categories": ["Rent"]}'')\<close>
    by simp
  from a b c 1 2 3 show ?thesis by blast
qed

text \<open>
  The claim as stated fails: a category file with a Windows line ending is present and
  is not returned as it is.
\<close>

theorem categories_verbatim_counterexample:
  "categories_file crlf_env = Inr [CHR ''{'', CHR 0x0D, CHR 0x0A, CHR ''}''] \<and>
   categories crlf_env = Inr (RStr [CHR ''{'', CHR 0x0A, CHR ''}'']) \<and>
   categories crlf_env \<noteq> Inr (RStr [CHR ''{'', CHR 0x0D, CHR 0x0A, CHR ''}''])"
  by (simp add: crlf_env_def categories_def read_categories_file_def)

subsection \<open>Empty filter arguments\<close>



subsection \<open>Listing expenses\<close>

lemma comes_before_total: "comes_before a b \<or> comes_before b a"
  by (auto simp: comes_before_def)

lemma comes_before_trans: "comes_before a b \<Longrightarrow> comes_before b c \<Longrightarrow> comes_before a c"
  by (auto simp: comes_before_def)

lemma mset_insert_row: "mset (insert_row r xs) = add_mset r (mset xs)"
  by (induction xs) simp_all

lemma mset_order_by_date_id_desc: "mset (order_by_date_id_desc xs) = mset xs"
  by (induction xs) (simp_all add: mset_insert_row)

lemma set_insert_row: "set (insert_row r xs) = insert r (set xs)"
  by (induction xs) auto

lemma sorted_insert_row:
  assumes "sorted_wrt comes_before xs"
  shows "sorted_wrt comes_before (insert_row r xs)"
  using assms
proof (induction xs)
  case Nil
  then show ?case by simp
next
  case (Cons x xs)
  show ?case
  proof (cases "comes_before r x")
    case True
    with Cons.prems show ?thesis
      by (auto intro: comes_before_trans)
  next
    case False
    then have "comes_before x r" using comes_before_total by blast
    with False Cons show ?thesis
      by (auto simp: set_insert_row)
  qed
qed

lemma sorted_order_by_date_id_desc: "sorted_wrt comes_before (order_by_date_id_desc xs)"
  by (induction xs) (simp_all add: sorted_insert_row)

lemma list_expenses_ok:
  assumes "db_fault e = None"
  shows "fst (list_expenses e d start_date end_date) =
           Inr (RList (map expense_dict
             (order_by_date_id_desc (filter (in_bounds start_date (given end_date)) (expenses d)))))"
proof -
  have "sql_where [DateBetween s t] = in_bounds (Some s) (Some t)"
    "sql_where [DateGe s] = in_bounds (Some s) None"
    "sql_where [DateLe t] = in_bounds None (Some t)"
    "sql_where [] = in_bounds None None"
    "in_bounds (Some []) u = in_bounds None u"
    for s t u
    by (simp_all add: fun_eq_iff in_bounds_def)
  then show ?thesis
    using assms
    by (cases start_date; cases end_date)
       (simp_all add: list_expenses_def with_connection_def sql_select_def given_def)
qed

text \<open>
  Claim C1, amended. When the query does not fail, \<^verbatim>\<open>list_expenses\<close> returns one mapping
  for each row whose date is at least the start date, if one is given, and at most the
  end date, if one is given and is not the empty string; each such row is returned
  once, and the rows are ordered by date descending and, among equal dates, by
  identifier descending.
\<close>

theorem list_expenses_filters_and_orders:
  assumes "db_fault e = None"
  shows "\<exists>rows. fst (list_expenses e d start_date end_date) = Inr (RList (map expense_dict rows)) \<and>
           mset rows = mset (filter (in_bounds start_date (given end_date)) (expenses d)) \<and>
           sorted_wrt (\<lambda>a b. date_col b < date_col a \<or>
                              (date_col a = date_col b \<and> id_col b \<le> id_col a)) rows"
proof -
  let ?rows = "order_by_date_id_desc (filter (in_bounds start_date (given end_date)) (expenses d))"
  have "sorted_wrt comes_before ?rows" by (rule sorted_order_by_date_id_desc)
  then have "sorted_wrt (\<lambda>a b. date_col b < date_col a \<or>
                              (date_col a = date_col b \<and> id_col b \<le> id_col a)) ?rows"
    by (simp add: comes_before_def [abs_def])
  with list_expenses_ok [OF assms] show ?thesis
    by (blast intro: mset_order_by_date_id_desc)
qed

theorem list_expenses_filters_and_orders_witness:
  "db_fault sample_env = None \<and>
   filter (in_bounds (Some ''2024-01-01'') (given (Some ''2024-01-02''))) (expenses sample_db) =
     [row1, row2, row3] \<and>
   (\<exists>rows. fst (list_expenses sample_env sample_db (Some ''2024-01-01'') (Some ''2024-01-02'')) =
             Inr (RList (map expense_dict rows)) \<and>
           mset rows = mset [row1, row2, row3] \<and>
           sorted_wrt (\<lambda>a b. date_col b < date_col a \<or>
                              (date_col a = date_col b \<and> id_col b \<le> id_col a)) rows)"
proof -
  have a: "db_fault sample_env = None" by (simp add: sample_env_def)
  have b: "filter (in_bounds (Some ''2024-01-01'') (given (Some ''2024-01-02''))) (expenses sample_db) =
     [row1, row2, row3]"
    by (simp add: sample_db_def in_bounds_def given_def row1_def row2_def row3_def row4_def)
  from list_expenses_filters_and_orders [OF a, of sample_db "Some ''2024-01-01''" "Some ''2024-01-02''"]
  show ?thesis unfolding b using a by blast
qed

text \<open>
  The claim as stated fails for an end date that is supplied as the empty string: no
  row of the sample store has a date between \<^verbatim>\<open>2024-01-02\<close> and the empty string, yet
  the call returns the two rows dated from \<^verbatim>\<open>2024-01-02\<close> on.
\<close>

theorem list_expenses_empty_end_date_counterexample:
  "db_fault sample_env = None \<and>
   filter (in_bounds (Some ''2024-01-02'') (Some [])) (expenses sample_db) = [] \<and>
   fst (list_expenses sample_env sample_db (Some ''2024-01-02'') (Some [])) =
     Inr (RList (map expense_dict [row4, row2]))"
  by (simp add: sample_env_def sample_db_def in_bounds_def list_expenses_def with_connection_def
      sql_select_def comes_before_def row1_def row2_def row3_def row4_def)

subsection \<open>Summarizing expenses\<close>













lemmas double_eval = to_double_def round_half_even_def exponent_up.simps exponent_down.simps
  Let_def kbn_step_def double_sum_def double_sum_plain_def

text \<open>
  The doubles nearest to 0.1 and 0.2, and their sum in double precision: it is the
  double that prints as 0.30000000000000004, which is neither the exact sum of the two
  doubles nor the double nearest to 0.3.
\<close>

lemma double_tenths:
  "to_double 0.1 = 3602879701896397 / 2 ^ 55"
  "to_double 0.2 = 3602879701896397 / 2 ^ 54"
  "to_double 0.3 = 5404319552844595 / 2 ^ 54"
  "to_double 0.30000000000000004 = 5404319552844596 / 2 ^ 54"
  by (simp_all add: double_eval)

lemma double_sum_tenths:
  "double_sum [to_double 0.1, to_double 0.2] = to_double 0.30000000000000004"
  "double_sum_plain [to_double 0.1, to_double 0.2] = to_double 0.30000000000000004"
  "to_double 0.1 + to_double 0.2 \<noteq> to_double 0.30000000000000004"
  unfolding double_tenths by (simp_all add: double_eval)

lemma double_sum_samples:
  "double_sum [21 / 2, 5] = 31 / 2" "double_sum [5, 21 / 2] = 31 / 2"
  "double_sum [20] = 20" "double_sum [1] = 1"
  by (simp_all add: double_eval)








subsection \<open>A worked scenario\<close>

text \<open>
  Three adds on an empty store, then \<^verbatim>\<open>summarize()\<close>: the category with the larger
  total comes first.
\<close>

lemma summarize_scenario:
  "fst (run \<lparr>expenses = [], sqlite_sequence = 0\<rparr>
     [(sample_env, AddExpense 10.5 ''Food & Dining'' [] [] (Some ''2024-01-01'')),
      (sample_env, AddExpense 5 ''Food & Dining'' [] [] (Some ''2024-01-02'')),
      (sample_env, AddExpense 20 ''Transportation'' [] [] (Some ''2024-01-01'')),
      (sample_env, Summarize None None None)]) ! 3 =
   Inr (RList [[(''category'', PyStr ''Transportation''), (''total_amount'', PyFloat 20),
                (''count'', PyInt 1)],
               [(''category'', PyStr ''Food & Dining''), (''total_amount'', PyFloat 15.5),
                (''count'', PyInt 2)]])"
  by (simp add: sample_env_def add_expense_def with_connection_def sql_insert_def
      largest_rowid_def max_rowid_def Let_def summarize_def sql_summarize_def aggregate_def
      summary_dict_def total_amount_def double_sum_samples)

end
